theory Spec2Isabelle
  imports Complex_Main
begin

section \<open>JavaScript numbers\<close>

text \<open>
  Money, ratings and the clock difference are JavaScript numbers (IEEE 754 binary64)
  on the server and \<open>REAL\<close> columns in SQLite. A finite double is modelled by the
  rational it denotes; arithmetic rounds the exact result to the nearest double, ties to
  even. The sign of zero is not modelled (\<open>-0 === 0\<close> in JavaScript, and no operation
  below tells them apart).
\<close>

datatype jsnum = Fin rat | PosInf | NegInf | NaN

function bitlen :: "int \<Rightarrow> int" where
  "bitlen n = (if n \<le> 0 then 0 else 1 + bitlen (n div 2))"
  by pat_completeness auto
termination
  by (relation "measure nat") auto

declare bitlen.simps [simp del]

definition pow2 :: "int \<Rightarrow> rat" where
  "pow2 e = (if 0 \<le> e then 2 ^ nat e else 1 / 2 ^ nat (- e))"

text \<open>
  \<open>ilog2 x\<close> is the binary exponent of a positive rational: \<open>2^e \<le> x < 2^(e+1)\<close>.
  From 1 on it is read off the integer part; below 1, off the reciprocal.
\<close>

definition ilog2 :: "rat \<Rightarrow> int" where
  "ilog2 x = (if 1 \<le> x then bitlen \<lfloor>x\<rfloor> - 1 else - bitlen (\<lceil>1 / x\<rceil> - 1))"

definition round_half_even :: "rat \<Rightarrow> int" where
  "round_half_even x = (let f = \<lfloor>x\<rfloor>; d = x - of_int f
     in if d < 1 / 2 then f else if 1 / 2 < d then f + 1 else if even f then f else f + 1)"

text \<open>
  Rounding of an exact value to binary64: 53 significant bits, least exponent \<open>-1074\<close>
  (subnormals), overflow to infinity from \<open>2^1024\<close> on.
\<close>

definition round_double :: "rat \<Rightarrow> jsnum" where
  "round_double x = (if x = 0 then Fin 0 else
     let a = \<bar>x\<bar>;
         q = max (ilog2 a - 52) (- 1074);
         r = of_int (round_half_even (a / pow2 q)) * pow2 q
     in if pow2 1024 \<le> r then (if 0 < x then PosInf else NegInf)
        else Fin (if 0 < x then r else - r))"

text \<open>The operator \<open>*\<close> of JavaScript.\<close>

fun js_mul :: "jsnum \<Rightarrow> jsnum \<Rightarrow> jsnum" where
  "js_mul (Fin a) (Fin b) = round_double (a * b)"
| "js_mul NaN _ = NaN"
| "js_mul _ NaN = NaN"
| "js_mul (Fin a) PosInf = (if a = 0 then NaN else if 0 < a then PosInf else NegInf)"
| "js_mul (Fin a) NegInf = (if a = 0 then NaN else if 0 < a then NegInf else PosInf)"
| "js_mul PosInf (Fin b) = (if b = 0 then NaN else if 0 < b then PosInf else NegInf)"
| "js_mul NegInf (Fin b) = (if b = 0 then NaN else if 0 < b then NegInf else PosInf)"
| "js_mul PosInf PosInf = PosInf"
| "js_mul PosInf NegInf = NegInf"
| "js_mul NegInf PosInf = NegInf"
| "js_mul NegInf NegInf = PosInf"

text \<open>The operator \<open><\<close> of JavaScript on numbers: false as soon as one side is NaN.\<close>

fun js_lt :: "jsnum \<Rightarrow> jsnum \<Rightarrow> bool" where
  "js_lt NaN _ = False"
| "js_lt _ NaN = False"
| "js_lt (Fin a) (Fin b) = (a < b)"
| "js_lt PosInf _ = False"
| "js_lt _ NegInf = False"
| "js_lt NegInf _ = True"
| "js_lt _ PosInf = True"

text \<open>The operator \<open>===\<close> of JavaScript on numbers: NaN is equal to nothing.\<close>

fun js_strict_eq :: "jsnum \<Rightarrow> jsnum \<Rightarrow> bool" where
  "js_strict_eq NaN _ = False"
| "js_strict_eq _ NaN = False"
| "js_strict_eq a b = (a = b)"

text \<open>
  The text of a number. \<open>DecStr q\<close> is a decimal literal that denotes exactly \<open>q\<close>
  (what \<open>toFixed\<close> prints below \<open>10^21\<close>); \<open>NumStr x\<close> is \<open>String(x)\<close>, which
  \<open>toFixed\<close> falls back to for NaN, the infinities and magnitudes from \<open>10^21\<close> on, and
  which reads back as \<open>x\<close>.
\<close>

datatype jsstr = DecStr rat | NumStr jsnum

text \<open>
  \<open>Number.prototype.toFixed(f)\<close>: for a negative number the sign is split off; the
  digits are those of the integer \<open>n\<close> for which \<open>n / 10^f - x\<close> is closest to zero, the
  larger \<open>n\<close> when there are two.
\<close>

definition toFixed :: "nat \<Rightarrow> jsnum \<Rightarrow> jsstr" where
  "toFixed f x = (case x of
       Fin r \<Rightarrow>
         if 10 ^ 21 \<le> \<bar>r\<bar> then NumStr x
         else let n = \<lfloor>\<bar>r\<bar> * 10 ^ f + 1 / 2\<rfloor>
              in DecStr ((if r < 0 then - 1 else 1) * of_int n / 10 ^ f)
     | _ \<Rightarrow> NumStr x)"

text \<open>\<open>parseFloat\<close> on such a text: the double nearest to the decimal literal.\<close>

fun parseFloat :: "jsstr \<Rightarrow> jsnum" where
  "parseFloat (DecStr q) = round_double q"
| "parseFloat (NumStr x) = x"

section \<open>The database\<close>

text \<open>
  The tables of \<open>db.exec(CREATE TABLE ...)\<close>, with the columns the booking lifecycle
  reads or writes. Rows are kept in insertion order. Status columns are \<open>TEXT\<close>.
  \<open>REAL\<close> columns hold doubles.
\<close>

record business =
  biz_id :: nat
  biz_rating :: jsnum
  biz_total_reviews :: nat
  biz_commission_rate :: jsnum

record service =
  svc_id :: nat
  svc_business_id :: nat
  svc_price :: jsnum
  svc_active :: int

record slot =
  av_id :: nat
  av_business_id :: nat
  av_date :: string
  av_time :: string
  av_status :: string

record booking =
  bk_id :: nat
  bk_client_id :: nat
  bk_business_id :: nat
  bk_service_id :: nat
  bk_availability_id :: nat
  bk_date :: string
  bk_time :: string
  bk_price :: jsnum
  bk_commission_amount :: jsnum
  bk_status :: string
  bk_cancellation_charge :: jsnum
  bk_confirmation_code :: string

record review =
  rv_id :: nat
  rv_booking_id :: nat
  rv_client_id :: nat
  rv_business_id :: nat
  rv_rating :: rat
  rv_comment :: string

text \<open>
  The \<open>seq_\<close> fields are the \<open>sqlite_sequence\<close> entries of the \<open>AUTOINCREMENT\<close> keys:
  the largest rowid the table has ever held.
\<close>

record db =
  businesses :: "business list"
  services :: "service list"
  availability :: "slot list"
  bookings :: "booking list"
  reviews :: "review list"
  seq_availability :: nat
  seq_bookings :: nat
  seq_reviews :: nat

text \<open>An \<open>AUTOINCREMENT\<close> rowid: one more than the largest rowid ever held.\<close>

definition next_rowid :: "nat \<Rightarrow> nat list \<Rightarrow> nat" where
  "next_rowid sq ids = Suc (fold max ids sq)"

text \<open>\<open>req.user\<close>, the payload of the verified token.\<close>

datatype user_type = Client | Business

record user =
  u_id :: nat
  u_type :: user_type

text \<open>
  The error responses of the handlers. \<open>InternalError\<close> is the response to an uncaught
  \<open>TypeError\<close>; \<open>Diverged\<close> stands for a code loop that has not ended within the
  random draws supplied.
\<close>

datatype error =
    Forbidden
  | NotFound
  | SlotUnavailable
  | ServiceNotFound
  | AlreadyCancelled
  | InvalidRating
  | InvalidState
  | DuplicateReview
  | InternalError
  | Diverged

section \<open>Confirmation codes\<close>




text \<open>\<open>toUpperCase\<close> on the characters that can occur: the ASCII letters.\<close>

definition toUpperCase_char :: "char \<Rightarrow> char" where
  "toUpperCase_char c =
     (case map_of (zip ''abcdefghijklmnopqrstuvwxyz'' ''ABCDEFGHIJKLMNOPQRSTUVWXYZ'') c of
        Some C \<Rightarrow> C
      | None \<Rightarrow> c)"

definition toUpperCase :: "string \<Rightarrow> string" where
  "toUpperCase s = map toUpperCase_char s"

definition substr :: "string \<Rightarrow> nat \<Rightarrow> nat \<Rightarrow> string" where
  "substr s start len = take len (drop start s)"

definition genCode :: "string \<Rightarrow> string" where
  "genCode r = ''HF-'' @ toUpperCase (substr r 2 6)"

definition code_taken :: "db \<Rightarrow> string \<Rightarrow> bool" where
  "code_taken st code = (find (\<lambda>b. bk_confirmation_code b = code) (bookings st) \<noteq> None)"

text \<open>
  \<open>let code = genCode(); while (SELECT id FROM bookings WHERE confirmation_code=code)
  code = genCode();\<close> over the successive draws \<open>rnd\<close>. The loop has no bound of its
  own; \<open>None\<close> says that every draw supplied collided.
\<close>

fun fresh_code :: "db \<Rightarrow> string list \<Rightarrow> string option" where
  "fresh_code st [] = None"
| "fresh_code st (r # rnd) =
     (let code = genCode r in if code_taken st code then fresh_code st rnd else Some code)"

section \<open>Availability\<close>

record slot_entry =
  e_date :: string
  e_time :: string
  e_status :: "string option"

text \<open>\<open>s.status || 'available'\<close>: a missing or empty status gives the default.\<close>

definition status_or_available :: "string option \<Rightarrow> string" where
  "status_or_available s = (case s of None \<Rightarrow> ''available''
     | Some t \<Rightarrow> if t = [] then ''available'' else t)"

definition same_key :: "nat \<Rightarrow> string \<Rightarrow> string \<Rightarrow> slot \<Rightarrow> bool" where
  "same_key biz d t a = (av_business_id a = biz \<and> av_date a = d \<and> av_time a = t)"

text \<open>The row of a key, of which the \<open>UNIQUE\<close> constraint of the table allows one.\<close>

definition slot_at :: "db \<Rightarrow> nat \<Rightarrow> string \<Rightarrow> string \<Rightarrow> slot option" where
  "slot_at st biz d t = find (same_key biz d t) (availability st)"

definition slot_by_id :: "db \<Rightarrow> nat \<Rightarrow> slot option" where
  "slot_by_id st i = find (\<lambda>a. av_id a = i) (availability st)"

text \<open>\<open>UPDATE availability SET status=? WHERE id=?\<close>\<close>

definition set_slot_status :: "nat \<Rightarrow> string \<Rightarrow> slot list \<Rightarrow> slot list" where
  "set_slot_status i status rows =
     map (\<lambda>a. if av_id a = i then a\<lparr>av_status := status\<rparr> else a) rows"

text \<open>
  \<open>INSERT INTO availability (business_id,date,time,status) VALUES (?,?,?,?)
  ON CONFLICT(business_id,date,time) DO UPDATE SET status=excluded.status
  WHERE status!='booked'\<close>. The row in conflict is the one row with the key; the
  update reaches it through its rowid.
\<close>

definition upsert :: "nat \<Rightarrow> db \<Rightarrow> slot_entry \<Rightarrow> db" where
  "upsert biz st e =
     (let status = status_or_available (e_status e) in
      case slot_at st biz (e_date e) (e_time e) of
        None \<Rightarrow>
          let i = next_rowid (seq_availability st) (map av_id (availability st))
          in st\<lparr>availability := availability st @
                  [\<lparr>av_id = i, av_business_id = biz, av_date = e_date e,
                    av_time = e_time e, av_status = status\<rparr>],
                seq_availability := i\<rparr>
      | Some a \<Rightarrow>
          if av_status a \<noteq> ''booked''
          then st\<lparr>availability := set_slot_status (av_id a) status (availability st)\<rparr>
          else st)"

text \<open>\<open>POST /api/businesses/me/availability\<close>; the answer counts the entries.\<close>

definition post_availability :: "db \<Rightarrow> user \<Rightarrow> slot_entry list \<Rightarrow> error + db \<times> nat" where
  "post_availability st u slots =
     (if u_type u \<noteq> Business then Inl Forbidden
      else Inr (foldl (upsert (u_id u)) st slots, length slots))"

section \<open>Bookings\<close>

text \<open>
  \<open>SELECT * FROM availability WHERE business_id=? AND date=? AND time=? AND
  status='available'\<close>
\<close>

definition available_slot :: "db \<Rightarrow> nat \<Rightarrow> string \<Rightarrow> string \<Rightarrow> slot option" where
  "available_slot st biz d t =
     find (\<lambda>a. same_key biz d t a \<and> av_status a = ''available'') (availability st)"

text \<open>\<open>SELECT * FROM services WHERE id=? AND business_id=? AND active=1\<close>\<close>

definition active_service :: "db \<Rightarrow> nat \<Rightarrow> nat \<Rightarrow> service option" where
  "active_service st i biz =
     find (\<lambda>s. svc_id s = i \<and> svc_business_id s = biz \<and> svc_active s = 1) (services st)"

text \<open>\<open>SELECT * FROM businesses WHERE id=?\<close>\<close>

definition business_by_id :: "db \<Rightarrow> nat \<Rightarrow> business option" where
  "business_by_id st i = find (\<lambda>b. biz_id b = i) (businesses st)"

record booking_request =
  rq_business_id :: nat
  rq_service_id :: nat
  rq_date :: string
  rq_time :: string

text \<open>
  \<open>POST /api/bookings\<close>. \<open>rnd\<close> are the draws of the random source. The answer
  carries the new rowid and the confirmation code.
\<close>

definition post_bookings ::
  "db \<Rightarrow> user \<Rightarrow> booking_request \<Rightarrow> string list \<Rightarrow> error + db \<times> nat \<times> string" where
  "post_bookings st u rq rnd =
     (if u_type u \<noteq> Client then Inl Forbidden
      else case available_slot st (rq_business_id rq) (rq_date rq) (rq_time rq) of
        None \<Rightarrow> Inl SlotUnavailable
      | Some slot \<Rightarrow>
      (case active_service st (rq_service_id rq) (rq_business_id rq) of
        None \<Rightarrow> Inl ServiceNotFound
      | Some service \<Rightarrow>
      (case business_by_id st (rq_business_id rq) of
        None \<Rightarrow> Inl InternalError
      | Some biz \<Rightarrow>
          let commission =
                parseFloat (toFixed 2 (js_mul (svc_price service) (biz_commission_rate biz)))
          in (case fresh_code st rnd of
                None \<Rightarrow> Inl Diverged
              | Some code \<Rightarrow>
                  let bookingId = next_rowid (seq_bookings st) (map bk_id (bookings st))
                  in Inr (st\<lparr>bookings := bookings st @
                              [\<lparr>bk_id = bookingId, bk_client_id = u_id u,
                                bk_business_id = rq_business_id rq,
                                bk_service_id = rq_service_id rq,
                                bk_availability_id = av_id slot,
                                bk_date = rq_date rq, bk_time = rq_time rq,
                                bk_price = svc_price service,
                                bk_commission_amount = commission,
                                bk_status = ''pending'',
                                bk_cancellation_charge = Fin 0,
                                bk_confirmation_code = code\<rparr>],
                            availability := set_slot_status (av_id slot) ''booked'' (availability st),
                            seq_bookings := bookingId\<rparr>,
                          bookingId, code)))))"

text \<open>\<open>SELECT * FROM bookings WHERE id=? AND business_id=?\<close>\<close>

definition booking_of_business :: "db \<Rightarrow> nat \<Rightarrow> nat \<Rightarrow> booking option" where
  "booking_of_business st i biz = find (\<lambda>b. bk_id b = i \<and> bk_business_id b = biz) (bookings st)"

text \<open>\<open>SELECT * FROM bookings WHERE id=? AND client_id=?\<close>\<close>

definition booking_of_client :: "db \<Rightarrow> nat \<Rightarrow> nat \<Rightarrow> booking option" where
  "booking_of_client st i c = find (\<lambda>b. bk_id b = i \<and> bk_client_id b = c) (bookings st)"

text \<open>\<open>PUT /api/bookings/:id/confirm\<close>\<close>

definition put_confirm :: "db \<Rightarrow> user \<Rightarrow> nat \<Rightarrow> error + db" where
  "put_confirm st u i =
     (if u_type u \<noteq> Business then Inl Forbidden
      else case booking_of_business st i (u_id u) of
        None \<Rightarrow> Inl NotFound
      | Some booking \<Rightarrow>
          Inr (st\<lparr>bookings :=
                 map (\<lambda>b. if bk_id b = i then b\<lparr>bk_status := ''confirmed''\<rparr> else b)
                     (bookings st)\<rparr>))"

text \<open>\<open>PUT /api/bookings/:id/reject\<close>\<close>

definition put_reject :: "db \<Rightarrow> user \<Rightarrow> nat \<Rightarrow> error + db" where
  "put_reject st u i =
     (if u_type u \<noteq> Business then Inl Forbidden
      else case booking_of_business st i (u_id u) of
        None \<Rightarrow> Inl NotFound
      | Some booking \<Rightarrow>
          Inr (st\<lparr>availability :=
                    set_slot_status (bk_availability_id booking) ''available'' (availability st),
                  bookings :=
                    map (\<lambda>b. if bk_id b = i then b\<lparr>bk_status := ''cancelled''\<rparr> else b)
                        (bookings st)\<rparr>))"

text \<open>
  \<open>PUT /api/bookings/:id/cancel\<close>. \<open>hoursLeft\<close> is the value of
  \<open>(new Date(`${booking.date}T${booking.time}`) - new Date()) / 3600000\<close> when the
  request is served: NaN when the date does not parse. The answer carries the charge.
\<close>

definition put_cancel :: "db \<Rightarrow> user \<Rightarrow> nat \<Rightarrow> jsnum \<Rightarrow> error + db \<times> jsnum" where
  "put_cancel st u i hoursLeft =
     (if u_type u \<noteq> Client then Inl Forbidden
      else case booking_of_client st i (u_id u) of
        None \<Rightarrow> Inl NotFound
      | Some booking \<Rightarrow>
          if bk_status booking = ''cancelled'' then Inl AlreadyCancelled
          else
            let charge = (if js_lt hoursLeft (Fin 24)
                          then parseFloat (toFixed 2 (js_mul (bk_price booking) (Fin (1 / 2))))
                          else Fin 0);
                st1 = st\<lparr>bookings :=
                        map (\<lambda>b. if bk_id b = i
                                  then b\<lparr>bk_status := ''cancelled'', bk_cancellation_charge := charge\<rparr>
                                  else b)
                            (bookings st)\<rparr>;
                st2 = (if js_strict_eq charge (Fin 0)
                       then st1\<lparr>availability :=
                              set_slot_status (bk_availability_id booking) ''available'' (availability st1)\<rparr>
                       else st1)
            in Inr (st2, charge))"

section \<open>Reviews\<close>

text \<open>
  \<open>SELECT AVG(rating)\<close>: NULL over no rows, otherwise the sum divided by the count in
  double arithmetic. It is the double nearest to the exact mean as long as the sum is
  exact, which it is for whole ratings.
\<close>

definition sql_avg :: "rat list \<Rightarrow> jsnum option" where
  "sql_avg xs = (if xs = [] then None
     else Some (round_double (sum_list xs / of_nat (length xs))))"

text \<open>
  \<open>POST /api/bookings/:id/review\<close>. \<open>rating\<close> is the number of the request body,
  \<open>None\<close> when it is missing. The text \<open>avg.avg.toFixed(1)\<close> is stored in the \<open>REAL\<close>
  column \<open>rating\<close>, which converts it to the nearest double.
\<close>

definition post_review ::
  "db \<Rightarrow> user \<Rightarrow> nat \<Rightarrow> rat option \<Rightarrow> string \<Rightarrow> error + db" where
  "post_review st u i rating comment =
     (if u_type u \<noteq> Client then Inl Forbidden
      else case rating of
        None \<Rightarrow> Inl InvalidRating
      | Some r \<Rightarrow>
      if r = 0 \<or> r < 1 \<or> 5 < r then Inl InvalidRating
      else (case booking_of_client st i (u_id u) of
        None \<Rightarrow> Inl InvalidState
      | Some booking \<Rightarrow>
      if bk_status booking \<noteq> ''completed'' then Inl InvalidState
      else if find (\<lambda>v. rv_booking_id v = i) (reviews st) \<noteq> None then Inl DuplicateReview
      else
        let rid = next_rowid (seq_reviews st) (map rv_id (reviews st));
            st1 = st\<lparr>reviews := reviews st @
                       [\<lparr>rv_id = rid, rv_booking_id = i, rv_client_id = u_id u,
                         rv_business_id = bk_business_id booking, rv_rating = r,
                         rv_comment = comment\<rparr>],
                     seq_reviews := rid\<rparr>;
            of_business = filter (\<lambda>v. rv_business_id v = bk_business_id booking) (reviews st1)
        in (case sql_avg (map rv_rating of_business) of
              None \<Rightarrow> Inl InternalError
            | Some avg \<Rightarrow>
                Inr (st1\<lparr>businesses :=
                       map (\<lambda>b. if biz_id b = bk_business_id booking
                                 then b\<lparr>biz_rating := parseFloat (toFixed 1 avg),
                                        biz_total_reviews := length of_business\<rparr>
                                 else b)
                           (businesses st1)\<rparr>))))"

section \<open>Requests\<close>

text \<open>
  The server answers one request at a time: every handler above is synchronous, so a
  run of the server is a sequence of requests, each served on the database its
  predecessors left. \<open>serve\<close> keeps the database of an answer; \<open>serve_all\<close> stops at
  the first error response.
\<close>

datatype request =
    PostAvailability user "slot_entry list"
  | PostBookings user booking_request "string list"
  | PutConfirm user nat
  | PutReject user nat
  | PutCancel user nat jsnum
  | PostReview user nat "rat option" string

fun serve :: "db \<Rightarrow> request \<Rightarrow> error + db" where
  "serve st (PostAvailability u slots) = map_sum id fst (post_availability st u slots)"
| "serve st (PostBookings u rq rnd) = map_sum id fst (post_bookings st u rq rnd)"
| "serve st (PutConfirm u i) = put_confirm st u i"
| "serve st (PutReject u i) = put_reject st u i"
| "serve st (PutCancel u i hoursLeft) = map_sum id fst (put_cancel st u i hoursLeft)"
| "serve st (PostReview u i rating comment) = post_review st u i rating comment"

fun serve_all :: "db \<Rightarrow> request list \<Rightarrow> error + db" where
  "serve_all st [] = Inr st"
| "serve_all st (r # rs) =
     (case serve st r of Inl e \<Rightarrow> Inl e | Inr st' \<Rightarrow> serve_all st' rs)"

section \<open>Sample data\<close>

text \<open>
  One business with the default commission rate, one service, one slot. \<open>rate_15\<close> is
  the double that the literal \<open>0.15\<close> of the schema denotes.
\<close>

definition rate_15 :: rat where
  "rate_15 = 5404319552844595 / 2 ^ 55"

definition salon :: user where
  "salon = \<lparr>u_id = 1, u_type = Business\<rparr>"

definition client :: "nat \<Rightarrow> user" where
  "client n = \<lparr>u_id = n, u_type = Client\<rparr>"

definition salon_row :: business where
  "salon_row = \<lparr>biz_id = 1, biz_rating = Fin 0, biz_total_reviews = 0,
                 biz_commission_rate = Fin rate_15\<rparr>"

definition monday_slot :: "string \<Rightarrow> slot" where
  "monday_slot status = \<lparr>av_id = 1, av_business_id = 1, av_date = ''2026-12-07'',
                          av_time = ''10:00'', av_status = status\<rparr>"

definition monday_entry :: slot_entry where
  "monday_entry = \<lparr>e_date = ''2026-12-07'', e_time = ''10:00'', e_status = None\<rparr>"

definition monday_10 :: booking_request where
  "monday_10 = \<lparr>rq_business_id = 1, rq_service_id = 1, rq_date = ''2026-12-07'',
                 rq_time = ''10:00''\<rparr>"

text \<open>The salon with a service of the given price and nothing else.\<close>

definition salon_db :: "jsnum \<Rightarrow> db" where
  "salon_db price =
     \<lparr>businesses = [salon_row],
      services = [\<lparr>svc_id = 1, svc_business_id = 1, svc_price = price, svc_active = 1\<rparr>],
      availability = [], bookings = [], reviews = [],
      seq_availability = 0, seq_bookings = 0, seq_reviews = 0\<rparr>"

text \<open>The booking that client 7 holds on the slot.\<close>

definition monday_booking :: "jsnum \<Rightarrow> jsnum \<Rightarrow> string \<Rightarrow> jsnum \<Rightarrow> booking" where
  "monday_booking price commission status charge =
     \<lparr>bk_id = 1, bk_client_id = 7, bk_business_id = 1, bk_service_id = 1,
      bk_availability_id = 1, bk_date = ''2026-12-07'', bk_time = ''10:00'',
      bk_price = price, bk_commission_amount = commission, bk_status = status,
      bk_cancellation_charge = charge, bk_confirmation_code = ''HF-4FZYO8''\<rparr>"

text \<open>The salon once the slot is published, and once client 7 has booked it.\<close>

definition open_db :: "jsnum \<Rightarrow> db" where
  "open_db price = (salon_db price)\<lparr>availability := [monday_slot ''available''],
                                      seq_availability := 1\<rparr>"

definition booked_db :: "jsnum \<Rightarrow> jsnum \<Rightarrow> string \<Rightarrow> db" where
  "booked_db price commission status =
     (salon_db price)\<lparr>availability := [monday_slot ''booked''], seq_availability := 1,
                       bookings := [monday_booking price commission status (Fin 0)],
                       seq_bookings := 1\<rparr>"

definition tuesday_slot :: "string \<Rightarrow> slot" where
  "tuesday_slot status = \<lparr>av_id = 2, av_business_id = 1, av_date = ''2026-12-08'',
                           av_time = ''09:00'', av_status = status\<rparr>"


section \<open>Notions of the statements\<close>



text \<open>
  A second booking, by client 8 on a slot of Tuesday; the salon with both bookings
  completed.
\<close>

definition tuesday_booking :: "string \<Rightarrow> booking" where
  "tuesday_booking status =
     \<lparr>bk_id = 2, bk_client_id = 8, bk_business_id = 1, bk_service_id = 1,
      bk_availability_id = 2, bk_date = ''2026-12-08'', bk_time = ''09:00'',
      bk_price = Fin 40, bk_commission_amount = Fin 6, bk_status = status,
      bk_cancellation_charge = Fin 0, bk_confirmation_code = ''HF-K3X9QZ''\<rparr>"

definition completed_db :: db where
  "completed_db =
     (salon_db (Fin 40))
       \<lparr>availability := [monday_slot ''booked'', tuesday_slot ''booked''],
        seq_availability := 2,
        bookings := [monday_booking (Fin 40) (Fin 6) ''completed'' (Fin 0),
                     tuesday_booking ''completed''],
        seq_bookings := 2\<rparr>"



definition review_row :: "nat \<Rightarrow> nat \<Rightarrow> nat \<Rightarrow> rat \<Rightarrow> string \<Rightarrow> review" where
  "review_row i booking c r comment =
     \<lparr>rv_id = i, rv_booking_id = booking, rv_client_id = c, rv_business_id = 1,
      rv_rating = r, rv_comment = comment\<rparr>"

text \<open>The \<open>UNIQUE(business_id, date, time)\<close> constraint of the table of slots.\<close>

definition unique_keys :: "slot list \<Rightarrow> bool" where
  "unique_keys rows = distinct (map (\<lambda>a. (av_business_id a, av_date a, av_time a)) rows)"

text \<open>
  A run on the one slot of Monday: it is booked and the booking rejected; it is booked
  again; the salon repeats the reject of the first booking; it is booked a third time.
\<close>

definition rejected_twice :: "request list" where
  "rejected_twice =
     [PostAvailability salon [monday_entry],
      PostBookings (client 7) monday_10 [''0.4fzyo82mvyr''],
      PutReject salon 1,
      PostBookings (client 8) monday_10 [''0.k3x9qz71pd''],
      PutReject salon 1,
      PostBookings (client 9) monday_10 [''0.p07bd1wq3n'']]"

definition rebooking :: "nat \<Rightarrow> nat \<Rightarrow> string \<Rightarrow> booking" where
  "rebooking i c code =
     (monday_booking (Fin 40) (Fin 6) ''pending'' (Fin 0))
       \<lparr>bk_id := i, bk_client_id := c, bk_confirmation_code := code\<rparr>"

definition double_booked_db :: db where
  "double_booked_db =
     (salon_db (Fin 40))
       \<lparr>availability := [monday_slot ''booked''], seq_availability := 1,
        bookings := [monday_booking (Fin 40) (Fin 6) ''cancelled'' (Fin 0),
                     rebooking 2 8 ''HF-K3X9QZ'', rebooking 3 9 ''HF-P07BD1''],
        seq_bookings := 3\<rparr>"

text \<open>
  The bookings that are not cancelled, and the property of claim C1: no two of them
  refer to the same slot.
\<close>

definition live :: "db \<Rightarrow> booking list" where
  "live st = filter (\<lambda>b. bk_status b \<noteq> ''cancelled'') (bookings st)"

definition no_double_booking :: "db \<Rightarrow> bool" where
  "no_double_booking st = distinct (map bk_availability_id (live st))"

text \<open>
  The state of the tables that the handlers work on: rowids are keys, no slot is booked
  twice, and the slot of every booking that is not cancelled is \<open>booked\<close>.
\<close>

definition consistent :: "db \<Rightarrow> bool" where
  "consistent st =
     (distinct (map av_id (availability st)) \<and>
      distinct (map bk_id (bookings st)) \<and>
      no_double_booking st \<and>
      list_all (\<lambda>b. map_option av_status (slot_by_id st (bk_availability_id b)) = Some ''booked'')
        (live st))"

text \<open>
  The guard that confirm and reject lack and cancel has: the booking that the request
  names, if the business holds it, is not cancelled.
\<close>

fun guarded :: "db \<Rightarrow> request \<Rightarrow> bool" where
  "guarded st (PutConfirm u i) =
     (case booking_of_business st i (u_id u) of
        None \<Rightarrow> True | Some b \<Rightarrow> bk_status b \<noteq> ''cancelled'')"
| "guarded st (PutReject u i) =
     (case booking_of_business st i (u_id u) of
        None \<Rightarrow> True | Some b \<Rightarrow> bk_status b \<noteq> ''cancelled'')"
| "guarded st _ = True"

text \<open>
  A run that respects the guard: \<open>None\<close> when a request is answered with an error or
  names a cancelled booking in a confirm or a reject.
\<close>

fun guarded_run :: "db \<Rightarrow> request list \<Rightarrow> db option" where
  "guarded_run st [] = Some st"
| "guarded_run st (r # rs) =
     (if guarded st r
      then (case serve st r of Inl e \<Rightarrow> None | Inr st' \<Rightarrow> guarded_run st' rs)
      else None)"

section \<open>Auxiliary facts\<close>

subsection \<open>Queries\<close>

lemma find_map_same:
  "(\<And>x. P (f x) = P x) \<Longrightarrow> find P (map f xs) = map_option f (find P xs)"
  by (induction xs) auto

lemma find_Some_holds: "find P xs = Some x \<Longrightarrow> P x"
  by (induction xs) (auto split: if_splits)

lemma find_Some_member: "find P xs = Some x \<Longrightarrow> x \<in> set xs"
  by (induction xs) (auto split: if_splits)


lemma find_append_old: "find P xs = Some y \<Longrightarrow> find P (xs @ zs) = Some y"
  by (induction xs) (auto split: if_splits)

lemma slot_by_id_set_slot_status:
  "find (\<lambda>a. av_id a = j) (set_slot_status i s rows) =
     map_option (\<lambda>a. if av_id a = i then a\<lparr>av_status := s\<rparr> else a)
       (find (\<lambda>a. av_id a = j) rows)"
  unfolding set_slot_status_def by (rule find_map_same) simp

lemma slot_by_id_released:
  "slot_by_id (st\<lparr>availability := set_slot_status i s (availability st)\<rparr>) i =
     map_option (\<lambda>a. a\<lparr>av_status := s\<rparr>) (slot_by_id st i)"
  unfolding slot_by_id_def
  by (cases "find (\<lambda>a. av_id a = i) (availability st)")
     (auto simp: slot_by_id_set_slot_status dest: find_Some_holds)


subsection \<open>Evaluation of the number model on numerals\<close>

lemma floor_rat_numeral_div:
  "\<lfloor>(numeral a :: rat) / numeral b\<rfloor> = numeral a div numeral b"
  using floor_divide_of_int_eq [of "numeral a" "numeral b", where ?'a = rat] by simp

lemma ceiling_rat_numeral_div:
  "\<lceil>(numeral a :: rat) / numeral b\<rceil> = - ((- numeral a) div numeral b)"
  using floor_divide_of_int_eq [of "- numeral a" "numeral b", where ?'a = rat]
  by (simp add: ceiling_def)

lemma bitlen_numeral:
  "bitlen 0 = 0"
  "bitlen 1 = 1"
  "bitlen (numeral Num.One) = 1"
  "bitlen (numeral (Num.Bit0 k)) = 1 + bitlen (numeral k)"
  "bitlen (numeral (Num.Bit1 k)) = 1 + bitlen (numeral k)"
  "bitlen (- numeral k) = 0"
  by (subst bitlen.simps, simp)+

lemmas double_eval = round_double_def ilog2_def pow2_def round_half_even_def bitlen_numeral
  Let_def floor_rat_numeral_div ceiling_rat_numeral_div toFixed_def

lemmas handler_eval = post_availability_def upsert_def slot_at_def slot_by_id_def same_key_def
  next_rowid_def status_or_available_def set_slot_status_def post_bookings_def
  available_slot_def active_service_def business_by_id_def code_taken_def put_confirm_def
  put_reject_def put_cancel_def post_review_def booking_of_business_def
  booking_of_client_def sql_avg_def genCode_def substr_def toUpperCase_def
  toUpperCase_char_def

lemmas sample_eval = salon_def client_def salon_row_def monday_slot_def monday_entry_def
  monday_10_def salon_db_def monday_booking_def open_db_def booked_db_def

lemma rate_15_is_0_15: "round_double (15 / 100) = Fin rate_15"
  by (simp add: rate_15_def double_eval)

lemma commission_of_40: "parseFloat (toFixed 2 (js_mul (Fin 40) (Fin rate_15))) = Fin 6"
  by (simp add: rate_15_def double_eval)

subsection \<open>What the number model computes\<close>

text \<open>
  Below \<open>10^21\<close> the text of \<open>toFixed f\<close> denotes a multiple of \<open>10^-f\<close> at most
  half a unit of the last place away from the number: \<open>toFixed\<close> rounds to \<open>f\<close>
  decimals, ties away from zero.
\<close>

lemma toFixed_rounds:
  assumes "\<bar>r\<bar> < 10 ^ 21"
  shows "\<exists>n :: int. toFixed f (Fin r) = DecStr (of_int n / 10 ^ f) \<and>
           \<bar>of_int n / 10 ^ f - r\<bar> \<le> 1 / (2 * 10 ^ f)"
proof -
  define y where "y = \<bar>r\<bar> * 10 ^ f"
  define m where "m = \<lfloor>y + 1 / 2\<rfloor>"
  define n where "n = (if r < 0 then - m else m)"
  have p: "(0 :: rat) < 10 ^ f" by simp
  have "of_int m \<le> y + 1 / 2" and "y + 1 / 2 < of_int m + 1"
    unfolding m_def by linarith+
  then have near: "\<bar>of_int m - y\<bar> \<le> 1 / 2" by linarith
  have "\<bar>of_int n / 10 ^ f - r\<bar> = \<bar>of_int m - y\<bar> / 10 ^ f"
  proof (cases "r < 0")
    case True
    then have "of_int n / 10 ^ f - r = - ((of_int m - y) / 10 ^ f)"
      using p by (simp add: n_def y_def field_simps)
    then show ?thesis by (simp add: abs_minus_commute)
  next
    case False
    then have "of_int n / 10 ^ f - r = (of_int m - y) / 10 ^ f"
      using p by (simp add: n_def y_def field_simps)
    then show ?thesis by simp
  qed
  also have "\<dots> \<le> (1 / 2) / 10 ^ f"
    by (rule divide_right_mono [OF near]) simp
  also have "\<dots> = 1 / (2 * 10 ^ f)"
    by simp
  finally have bound: "\<bar>of_int n / 10 ^ f - r\<bar> \<le> 1 / (2 * 10 ^ f)" .
  have "toFixed f (Fin r) = DecStr (of_int n / 10 ^ f)"
    using assms by (simp add: toFixed_def Let_def n_def m_def y_def)
  with bound show ?thesis by blast
qed


section \<open>Rejecting a booking\<close>



section \<open>Terminal states\<close>

text \<open>
  Claim C3 says that no confirm, reject or cancel moves a booking out of \<open>cancelled\<close> or
  \<open>completed\<close>. The handlers hold no guard on \<open>completed\<close>: a confirm by the owning
  business turns a completed booking into a confirmed one.
\<close>

theorem confirm_reopens_completed:
  "bk_status (monday_booking (Fin 40) (Fin 6) ''completed'' (Fin 0)) = ''completed'' \<and>
   bookings (booked_db (Fin 40) (Fin 6) ''completed'') =
     [monday_booking (Fin 40) (Fin 6) ''completed'' (Fin 0)] \<and>
   put_confirm (booked_db (Fin 40) (Fin 6) ''completed'') salon 1 =
     Inr (booked_db (Fin 40) (Fin 6) ''confirmed'')"
  by (simp add: sample_eval put_confirm_def booking_of_business_def)

text \<open>
  Claim C3, as the handlers have it. A booking whose status is \<open>cancelled\<close> keeps that
  status through every reject and every cancel, whichever booking the request names:
  both handlers write no other status, and a cancel of the cancelled booking itself is
  refused with \<open>AlreadyCancelled\<close>.
\<close>

theorem cancelled_stays_cancelled:
  assumes "k < length (bookings st)"
    and "bk_status (bookings st ! k) = ''cancelled''"
  shows "(\<forall>st'. put_reject st u i = Inr st' \<longrightarrow>
            map bk_id (bookings st') = map bk_id (bookings st) \<and>
            bk_status (bookings st' ! k) = ''cancelled'')
       \<and> (\<forall>st' c. put_cancel st u i hoursLeft = Inr (st', c) \<longrightarrow>
            map bk_id (bookings st') = map bk_id (bookings st) \<and>
            bk_status (bookings st' ! k) = ''cancelled'')
       \<and> (u_type u = Client \<and> booking_of_client st i (u_id u) = Some (bookings st ! k) \<longrightarrow>
            put_cancel st u i hoursLeft = Inl AlreadyCancelled)"
proof (intro conjI allI impI)
  fix st'
  assume "put_reject st u i = Inr st'"
  then have rows: "bookings st' =
      map (\<lambda>b. if bk_id b = i then b\<lparr>bk_status := ''cancelled''\<rparr> else b) (bookings st)"
    by (auto simp: put_reject_def split: if_splits option.splits)
  show "map bk_id (bookings st') = map bk_id (bookings st)"
    unfolding rows by (induction "bookings st") auto
  show "bk_status (bookings st' ! k) = ''cancelled''"
    unfolding rows using assms by simp
next
  fix st' c
  assume "put_cancel st u i hoursLeft = Inr (st', c)"
  then have rows: "bookings st' =
      map (\<lambda>b. if bk_id b = i
                then b\<lparr>bk_status := ''cancelled'', bk_cancellation_charge := c\<rparr> else b)
          (bookings st)"
    by (auto simp: put_cancel_def Let_def split: if_splits option.splits)
  show "map bk_id (bookings st') = map bk_id (bookings st)"
    unfolding rows by (induction "bookings st") auto
  show "bk_status (bookings st' ! k) = ''cancelled''"
    unfolding rows using assms by simp
next
  assume "u_type u = Client \<and> booking_of_client st i (u_id u) = Some (bookings st ! k)"
  then show "put_cancel st u i hoursLeft = Inl AlreadyCancelled"
    using assms by (simp add: put_cancel_def)
qed

theorem cancelled_stays_cancelled_witness:
  "0 < length (bookings (booked_db (Fin 40) (Fin 6) ''cancelled'')) \<and>
   bk_status (bookings (booked_db (Fin 40) (Fin 6) ''cancelled'') ! 0) = ''cancelled'' \<and>
   put_reject (booked_db (Fin 40) (Fin 6) ''cancelled'') salon 1 =
     Inr ((booked_db (Fin 40) (Fin 6) ''cancelled'')\<lparr>availability := [monday_slot ''available'']\<rparr>) \<and>
   bk_status (bookings ((booked_db (Fin 40) (Fin 6) ''cancelled'')
       \<lparr>availability := [monday_slot ''available'']\<rparr>) ! 0) = ''cancelled'' \<and>
   put_cancel (booked_db (Fin 40) (Fin 6) ''cancelled'') (client 7) 1 (Fin 48) =
     Inl AlreadyCancelled"
proof -
  let ?st = "booked_db (Fin 40) (Fin 6) ''cancelled''"
  let ?st' = "?st\<lparr>availability := [monday_slot ''available'']\<rparr>"
  have k: "0 < length (bookings ?st)"
    and c: "bk_status (bookings ?st ! 0) = ''cancelled''"
    by (simp_all add: sample_eval)
  have r: "put_reject ?st salon 1 = Inr ?st'"
    by (simp add: sample_eval put_reject_def booking_of_business_def set_slot_status_def)
  have o: "u_type (client 7) = Client \<and>
      booking_of_client ?st 1 (u_id (client 7)) = Some (bookings ?st ! 0)"
    by (simp add: sample_eval booking_of_client_def)
  note by_business = cancelled_stays_cancelled [OF k c, of salon 1 "Fin 48"]
    and by_client = cancelled_stays_cancelled [OF k c, of "client 7" 1 "Fin 48"]
  show ?thesis
    using by_business by_client k c r o by blast
qed

section \<open>Publishing availability\<close>






section \<open>Cancelling a booking\<close>









section \<open>Creating a booking\<close>

text \<open>What a successful \<open>POST /api/bookings\<close> has read and written.\<close>

lemma post_bookings_success:
  assumes "post_bookings st u rq rnd = Inr (st', i, code)"
  shows "\<exists>slot service biz.
      u_type u = Client \<and>
      available_slot st (rq_business_id rq) (rq_date rq) (rq_time rq) = Some slot \<and>
      active_service st (rq_service_id rq) (rq_business_id rq) = Some service \<and>
      business_by_id st (rq_business_id rq) = Some biz \<and>
      fresh_code st rnd = Some code \<and>
      i = next_rowid (seq_bookings st) (map bk_id (bookings st)) \<and>
      st' = st\<lparr>bookings := bookings st @
                 [\<lparr>bk_id = i, bk_client_id = u_id u, bk_business_id = rq_business_id rq,
                   bk_service_id = rq_service_id rq, bk_availability_id = av_id slot,
                   bk_date = rq_date rq, bk_time = rq_time rq, bk_price = svc_price service,
                   bk_commission_amount =
                     parseFloat (toFixed 2 (js_mul (svc_price service) (biz_commission_rate biz))),
                   bk_status = ''pending'', bk_cancellation_charge = Fin 0,
                   bk_confirmation_code = code\<rparr>],
               availability := set_slot_status (av_id slot) ''booked'' (availability st),
               seq_bookings := i\<rparr>"
  using assms
  by (auto simp: post_bookings_def Let_def split: if_splits option.splits)



section \<open>Reviews\<close>




text \<open>
  The refusals of a review, in the order the handler checks: the rating (missing, 0,
  below 1 or above 5), then the booking (held by the client and \<open>completed\<close>), then an
  earlier review of the same booking.
\<close>

lemma post_review_refusals:
  assumes "u_type u = Client"
  shows "rating = None \<or> (\<exists>r. rating = Some r \<and> (r < 1 \<or> 5 < r)) \<Longrightarrow>
           post_review st u i rating comment = Inl InvalidRating"
    and "rating = Some r \<Longrightarrow> 1 \<le> r \<Longrightarrow> r \<le> 5 \<Longrightarrow>
           booking_of_client st i (u_id u) = None \<or>
           (\<exists>b. booking_of_client st i (u_id u) = Some b \<and> bk_status b \<noteq> ''completed'') \<Longrightarrow>
           post_review st u i rating comment = Inl InvalidState"
    and "rating = Some r \<Longrightarrow> 1 \<le> r \<Longrightarrow> r \<le> 5 \<Longrightarrow>
           booking_of_client st i (u_id u) = Some b \<Longrightarrow> bk_status b = ''completed'' \<Longrightarrow>
           find (\<lambda>v. rv_booking_id v = i) (reviews st) \<noteq> None \<Longrightarrow>
           post_review st u i rating comment = Inl DuplicateReview"
  using assms by (auto simp: post_review_def)

text \<open>
  Claim C6 has every rating that is not a whole number from 1 to 5 refused with
  \<open>InvalidRating\<close>, 4.5 among them, and the column \<open>rating\<close> of the reviews is declared
  \<open>INTEGER\<close>. The check of the handler is on the range alone: a review with the rating
  4.5 on a completed booking is accepted and stored, and the business is rated 4.5.
\<close>

theorem review_accepts_half_star:
  "post_review completed_db (client 7) 1 (Some (9 / 2)) ''good'' =
     Inr (completed_db\<lparr>reviews := [review_row 1 1 7 (9 / 2) ''good''], seq_reviews := 1,
            businesses := [salon_row\<lparr>biz_rating := Fin (9 / 2), biz_total_reviews := 1\<rparr>]\<rparr>)"
  by (simp add: completed_db_def tuesday_booking_def tuesday_slot_def review_row_def
        sample_eval post_review_def booking_of_client_def next_rowid_def sql_avg_def
        double_eval)

section \<open>Confirmation codes of bookings\<close>


lemma list_all_drop: "list_all P xs \<Longrightarrow> list_all P (drop n xs)"
  by (auto simp: list_all_iff dest: in_set_dropD)



lemma code_taken_iff:
  "code_taken st code \<longleftrightarrow> code \<in> set (map bk_confirmation_code (bookings st))"
  unfolding code_taken_def by (induction "bookings st" arbitrary: st) (auto simp: find_None_iff)

text \<open>
  The loop ends as soon as a draw gives a code no booking has: it fails to end within
  the draws supplied only when every one of them collides. What it returns is the code
  of the first draw that does not collide.
\<close>

lemma fresh_code_None_iff:
  "fresh_code st rnd = None \<longleftrightarrow> list_all (code_taken st) (map genCode rnd)"
  by (induction rnd) (auto simp: Let_def)

lemma fresh_code_first:
  "fresh_code st rnd = Some code \<Longrightarrow>
     \<exists>pre r post. rnd = pre @ r # post \<and> code = genCode r \<and> \<not> code_taken st code \<and>
       list_all (code_taken st) (map genCode pre)"
proof (induction rnd)
  case Nil
  then show ?case by simp
next
  case (Cons x rnd)
  show ?case
  proof (cases "code_taken st (genCode x)")
    case True
    with Cons.prems have "fresh_code st rnd = Some code"
      by (simp add: Let_def)
    from Cons.IH [OF this] obtain pre r post
      where "rnd = pre @ r # post" "code = genCode r" "\<not> code_taken st code"
        "list_all (code_taken st) (map genCode pre)"
      by blast
    with True have "x # rnd = (x # pre) @ r # post \<and> code = genCode r \<and>
        \<not> code_taken st code \<and> list_all (code_taken st) (map genCode (x # pre))"
      by simp
    then show ?thesis by blast
  next
    case False
    with Cons.prems have "code = genCode x"
      by (simp add: Let_def)
    with False have "x # rnd = [] @ x # rnd \<and> code = genCode x \<and>
        \<not> code_taken st code \<and> list_all (code_taken st) (map genCode [])"
      by simp
    then show ?thesis by blast
  qed
qed




text \<open>
  Over a run of the server: no request changes the code of a booking, and a new
  booking comes with a new code, so the codes of the bookings stay distinct.
\<close>

lemma serve_keeps_codes_distinct:
  assumes "serve st r = Inr st'"
    and "distinct (map bk_confirmation_code (bookings st))"
  shows "distinct (map bk_confirmation_code (bookings st'))"
proof (cases r)
  case (PostAvailability u slots)
  have "bookings (foldl (upsert biz) s es) = bookings s" for biz s es
    by (induction es arbitrary: s) (auto simp: upsert_def Let_def split: option.splits)
  then show ?thesis
    using assms PostAvailability
    by (auto simp: post_availability_def split: if_splits)
next
  case (PostBookings u rq rnd)
  then obtain i code where run: "post_bookings st u rq rnd = Inr (st', i, code)"
    using assms(1) by (cases "post_bookings st u rq rnd") auto
  from post_bookings_success [OF run]
  have fresh: "fresh_code st rnd = Some code"
    and rows: "map bk_confirmation_code (bookings st') =
      map bk_confirmation_code (bookings st) @ [code]"
    by force+
  from fresh_code_first [OF fresh] have "\<not> code_taken st code"
    by blast
  then show ?thesis
    using assms(2) unfolding rows by (simp add: code_taken_iff)
next
  case (PutConfirm u i)
  then have "map bk_confirmation_code (bookings st') = map bk_confirmation_code (bookings st)"
    using assms(1) by (auto simp: put_confirm_def comp_def split: if_splits option.splits)
  then show ?thesis using assms(2) by simp
next
  case (PutReject u i)
  then have "map bk_confirmation_code (bookings st') = map bk_confirmation_code (bookings st)"
    using assms(1) by (auto simp: put_reject_def comp_def split: if_splits option.splits)
  then show ?thesis using assms(2) by simp
next
  case (PutCancel u i h)
  then have "map bk_confirmation_code (bookings st') = map bk_confirmation_code (bookings st)"
    using assms(1)
    by (auto simp: put_cancel_def Let_def comp_def split: if_splits option.splits)
  then show ?thesis using assms(2) by simp
next
  case (PostReview u i rating comment)
  then have "bookings st' = bookings st"
    using assms(1)
    by (auto simp: post_review_def Let_def split: if_splits option.splits)
  then show ?thesis using assms(2) by simp
qed

lemma serve_all_keeps_codes_distinct:
  "serve_all st rs = Inr st' \<Longrightarrow> distinct (map bk_confirmation_code (bookings st)) \<Longrightarrow>
     distinct (map bk_confirmation_code (bookings st'))"
proof (induction rs arbitrary: st)
  case Nil
  then show ?case by simp
next
  case (Cons r rs)
  then obtain st1 where "serve st r = Inr st1" and "serve_all st1 rs = Inr st'"
    by (auto split: sum.splits)
  then show ?case
    using Cons.IH Cons.prems(2) serve_keeps_codes_distinct by blast
qed

section \<open>No double booking\<close>

text \<open>
  What holds of \<open>POST /api/bookings\<close>. A client is refused with \<open>SlotUnavailable\<close>
  exactly when no slot with the status \<open>available\<close> has the key of the request.
\<close>

lemma post_bookings_slot_unavailable:
  assumes "u_type u = Client"
  shows "post_bookings st u rq rnd = Inl SlotUnavailable \<longleftrightarrow>
     available_slot st (rq_business_id rq) (rq_date rq) (rq_time rq) = None"
  using assms by (auto simp: post_bookings_def Let_def split: option.splits)

text \<open>
  A successful request turns the slot it found to \<open>booked\<close> and appends a pending
  booking that refers to it, in one step.
\<close>

lemma post_bookings_books_slot:
  assumes "post_bookings st u rq rnd = Inr (st', i, code)"
  shows "\<exists>slot b. available_slot st (rq_business_id rq) (rq_date rq) (rq_time rq) = Some slot \<and>
      availability st' = set_slot_status (av_id slot) ''booked'' (availability st) \<and>
      slot_by_id st' (av_id slot) =
        map_option (\<lambda>a. a\<lparr>av_status := ''booked''\<rparr>) (slot_by_id st (av_id slot)) \<and>
      bookings st' = bookings st @ [b] \<and> bk_id b = i \<and>
      bk_availability_id b = av_id slot \<and> bk_status b = ''pending''"
proof -
  from assms obtain slot b where
    slot: "available_slot st (rq_business_id rq) (rq_date rq) (rq_time rq) = Some slot"
    and rows: "availability st' = set_slot_status (av_id slot) ''booked'' (availability st)"
    and b: "bookings st' = bookings st @ [b]" "bk_id b = i"
      "bk_availability_id b = av_id slot" "bk_status b = ''pending''"
    by (auto simp: post_bookings_def Let_def split: if_splits option.splits)
  have "slot_by_id st' (av_id slot) =
      slot_by_id (st\<lparr>availability :=
        set_slot_status (av_id slot) ''booked'' (availability st)\<rparr>) (av_id slot)"
    by (simp add: rows slot_by_id_def)
  then have "slot_by_id st' (av_id slot) =
      map_option (\<lambda>a. a\<lparr>av_status := ''booked''\<rparr>) (slot_by_id st (av_id slot))"
    by (simp only: slot_by_id_released)
  then show ?thesis
    using slot rows b by blast
qed

text \<open>
  With one slot per key, the slot is gone for the next client: a second request for
  the same key right after a successful one is refused.
\<close>

lemma post_bookings_second_refused:
  assumes "post_bookings st u rq rnd = Inr (st', i, code)"
    and "unique_keys (availability st)"
    and "u_type u2 = Client"
  shows "post_bookings st' u2 rq rnd2 = Inl SlotUnavailable"
proof -
  let ?key = "\<lambda>a. (av_business_id a, av_date a, av_time a)"
  let ?P = "\<lambda>a. same_key (rq_business_id rq) (rq_date rq) (rq_time rq) a \<and>
               av_status a = ''available''"
  from post_bookings_books_slot [OF assms(1)]
  obtain slot where
    slot: "available_slot st (rq_business_id rq) (rq_date rq) (rq_time rq) = Some slot"
    and rows: "availability st' = set_slot_status (av_id slot) ''booked'' (availability st)"
    by blast
  have slot_in: "slot \<in> set (availability st)" and slot_key: "?P slot"
    using slot unfolding available_slot_def
    by (auto dest: find_Some_member find_Some_holds)
  have "\<not> ?P a'" if "a' \<in> set (availability st')" for a'
  proof
    assume P: "?P a'"
    from that obtain a where a: "a \<in> set (availability st)"
      and a': "a' = (if av_id a = av_id slot then a\<lparr>av_status := ''booked''\<rparr> else a)"
      unfolding rows set_slot_status_def by auto
    have other: "av_id a \<noteq> av_id slot"
      using P a' by (auto split: if_splits)
    then have "a' = a" using a' by simp
    with P slot_key have "?key a = ?key slot"
      by (simp add: same_key_def)
    moreover have "inj_on ?key (set (availability st))"
      using assms(2) unfolding unique_keys_def by (simp add: distinct_map)
    ultimately have "a = slot"
      using a slot_in by (auto dest: inj_onD)
    with other show False by simp
  qed
  then have "available_slot st' (rq_business_id rq) (rq_date rq) (rq_time rq) = None"
    unfolding available_slot_def by (simp add: find_None_iff)
  then show ?thesis
    using assms(3) by (simp add: post_bookings_slot_unavailable)
qed

text \<open>
  Claim C1 says that at most one booking that is not cancelled ever refers to a slot.
  A cancel refuses a booking that is already cancelled; a reject does not. Repeating
  the reject of a booking, once its slot has been booked again, releases the slot under
  the second booking, and a third client books it: the bookings 2 and 3 are both
  pending on slot 1.
\<close>

theorem double_booking_after_repeated_reject:
  "serve_all (salon_db (Fin 40)) rejected_twice = Inr double_booked_db \<and>
   map bk_id (bookings double_booked_db) = [1, 2, 3] \<and>
   map bk_availability_id (bookings double_booked_db) = [1, 1, 1] \<and>
   map bk_status (bookings double_booked_db) = [''cancelled'', ''pending'', ''pending'']"
  by (simp add: rejected_twice_def double_booked_db_def rebooking_def sample_eval
        handler_eval rate_15_def double_eval)

end
